theory Spec2Isabelle
  imports Main "HOL-Library.Sublist"
begin

section \<open>Values of the runtime\<close>

text \<open>
  The three scripts of the repository are edge and browser handlers: each takes a
  request, may call the global \<^verbatim>\<open>fetch\<close>, and builds a \<^verbatim>\<open>Response\<close>.
  Strings are \<open>string\<close>, a promise that rejects is \<open>Inl m\<close> with \<open>m\<close> the
  \<^verbatim>\<open>message\<close> of the error it rejects with, and one that resolves is \<open>Inr v\<close>.
  A value that may be \<^verbatim>\<open>undefined\<close> or \<^verbatim>\<open>null\<close> is an \<open>option\<close>.
\<close>

type_synonym 'a promise = "string + 'a"

text \<open>\<^verbatim>\<open>!x\<close> for a string that may be undefined: undefined and the empty string are falsy.\<close>

definition falsy :: "string option \<Rightarrow> bool" where
  "falsy x = (case x of None \<Rightarrow> True | Some s \<Rightarrow> s = [])"

subsection \<open>Header lists\<close>

text \<open>
  A \<^verbatim>\<open>Headers\<close> object is a list of name/value pairs whose names match without
  regard to ASCII case. \<^verbatim>\<open>set\<close> overwrites the first header of the name and drops the
  others, or appends; \<^verbatim>\<open>delete\<close> drops every header of the name; \<^verbatim>\<open>get\<close> joins the
  values of the name with a comma and a space.
\<close>

type_synonym headers = "(string \<times> string) list"

definition lower_char :: "char \<Rightarrow> char" where
  "lower_char c =
     (case map_of (zip ''ABCDEFGHIJKLMNOPQRSTUVWXYZ'' ''abcdefghijklmnopqrstuvwxyz'') c of
        Some d \<Rightarrow> d
      | None \<Rightarrow> c)"

definition name_eq :: "string \<Rightarrow> string \<Rightarrow> bool" where
  "name_eq a b = (map lower_char a = map lower_char b)"

definition hdelete :: "string \<Rightarrow> headers \<Rightarrow> headers" where
  "hdelete n hs = filter (\<lambda>kv. \<not> name_eq (fst kv) n) hs"

fun hset :: "string \<Rightarrow> string \<Rightarrow> headers \<Rightarrow> headers" where
  "hset n v [] = [(n, v)]"
| "hset n v (kv # hs) =
     (if name_eq (fst kv) n then (fst kv, v) # hdelete n hs else kv # hset n v hs)"

definition happend :: "string \<Rightarrow> string \<Rightarrow> headers \<Rightarrow> headers" where
  "happend n v hs = hs @ [(n, v)]"

fun join_values :: "string list \<Rightarrow> string" where
  "join_values [] = []"
| "join_values [v] = v"
| "join_values (v # w # vs) = v @ '', '' @ join_values (w # vs)"

definition hget :: "string \<Rightarrow> headers \<Rightarrow> string option" where
  "hget n hs =
     (case filter (\<lambda>kv. name_eq (fst kv) n) hs of
        [] \<Rightarrow> None
      | kvs \<Rightarrow> Some (join_values (map snd kvs)))"

text \<open>\<^verbatim>\<open>new Headers(init)\<close> appends the entries of \<open>init\<close> in order.\<close>

definition new_Headers :: "(string \<times> string) list \<Rightarrow> headers" where
  "new_Headers init = foldl (\<lambda>hs kv. happend (fst kv) (snd kv) hs) [] init"

subsection \<open>Requests and responses\<close>

text \<open>
  A parsed \<^verbatim>\<open>URL\<close>: \<open>searchParams\<close> is the decoded list of query parameters in the
  order of the query string, so \<^verbatim>\<open>/proxy?url=\<close> has \<open>[(''url'', [])]\<close> and \<^verbatim>\<open>/proxy\<close>
  has \<open>[]\<close>. The port is empty when it is the default of the protocol.
\<close>

record url =
  protocol :: string
  hostname :: string
  port :: string
  pathname :: string
  searchParams :: "(string \<times> string) list"

text \<open>\<^verbatim>\<open>searchParams.get(name)\<close>: the value of the first parameter of that name, or null.\<close>

fun searchParams_get :: "(string \<times> string) list \<Rightarrow> string \<Rightarrow> string option" where
  "searchParams_get [] n = None"
| "searchParams_get (kv # ps) n = (if fst kv = n then Some (snd kv) else searchParams_get ps n)"

definition origin :: "url \<Rightarrow> string" where
  "origin u = protocol u @ ''//'' @ hostname u @ (if port u = [] then [] else '':'' @ port u)"

text \<open>
  An inbound request. \<open>req_text\<close> is what \<^verbatim>\<open>await request.text()\<close> gives: the body, or the
  error reading it raises.
\<close>

record request =
  req_method :: string
  url :: url
  req_text :: "string promise"

text \<open>
  \<^verbatim>\<open>new Response(body, {status, headers})\<close>. A null body is \<open>None\<close>. The constructor is
  taken as the plain construction the handlers use it for: the checks a runtime makes
  on the status it is given, and the \<^verbatim>\<open>Content-Type\<close> it derives for a string body, are
  not part of this model.
\<close>

record response =
  status :: nat
  headers :: headers
  body :: "string option"

text \<open>\<^verbatim>\<open>response.ok\<close>\<close>

definition ok :: "response \<Rightarrow> bool" where
  "ok r = (200 \<le> status r \<and> status r \<le> 299)"

text \<open>
  The second argument of the global \<^verbatim>\<open>fetch(url, init)\<close>, with the address it is called
  on. A field the call leaves out is \<open>None\<close> (the method is then GET).
\<close>

record outbound =
  o_url :: string
  o_method :: "string option"
  o_headers :: "(string \<times> string) list"
  o_body :: "string option"
  o_redirect :: "string option"

text \<open>
  What the global \<^verbatim>\<open>fetch\<close> resolves to: the status and headers of the answer, and what
  reading its body (\<^verbatim>\<open>text()\<close>, \<^verbatim>\<open>arrayBuffer()\<close>) gives, the content or the error raised.
\<close>

record fetched =
  f_status :: nat
  f_headers :: headers
  f_body :: "string promise"

type_synonym network = "outbound \<Rightarrow> fetched promise"

subsection \<open>JSON.stringify\<close>

text \<open>
  The handlers stringify one shape only, an object with string fields. A string is
  quoted as ECMAScript's QuoteJSONString does: the double quote, the backslash and the
  control characters below 0x20 are escaped.
\<close>

datatype json = JString string | JObject "(string \<times> json) list"

definition hex_digit :: "nat \<Rightarrow> char" where
  "hex_digit n = ''0123456789abcdef'' ! (n mod 16)"

definition quote_char :: "char \<Rightarrow> string" where
  "quote_char c =
     (let n = (of_char c :: nat) in
      if n = 8 then [CHR 0x5C, CHR ''b'']
      else if n = 9 then [CHR 0x5C, CHR ''t'']
      else if n = 10 then [CHR 0x5C, CHR ''n'']
      else if n = 12 then [CHR 0x5C, CHR ''f'']
      else if n = 13 then [CHR 0x5C, CHR ''r'']
      else if n = 34 then [CHR 0x5C, CHR 0x22]
      else if n = 92 then [CHR 0x5C, CHR 0x5C]
      else if n < 32 then [CHR 0x5C, CHR ''u'', CHR ''0'', CHR ''0'', hex_digit (n div 16), hex_digit n]
      else [c])"

definition QuoteJSONString :: "string \<Rightarrow> string" where
  "QuoteJSONString s = [CHR 0x22] @ concat (map quote_char s) @ [CHR 0x22]"

fun join_members :: "string list \<Rightarrow> string" where
  "join_members [] = []"
| "join_members [m] = m"
| "join_members (m # n # ms) = m @ '','' @ join_members (n # ms)"

fun JSON_stringify :: "json \<Rightarrow> string" where
  "JSON_stringify (JString s) = QuoteJSONString s"
| "JSON_stringify (JObject kvs) =
     ''{'' @ join_members (map (\<lambda>kv. QuoteJSONString (fst kv) @ '':'' @ JSON_stringify (snd kv)) kvs) @ ''}''"

section \<open>functions/api/claude.js\<close>

record env =
  ANTHROPIC_API_KEY :: "string option"
  ASSETS :: "(request \<Rightarrow> response promise) option"

record pages_context =
  c_request :: request
  c_env :: env

text \<open>The request the handlers send to the upstream, for a key and a body.\<close>

definition upstream_request :: "string \<Rightarrow> string \<Rightarrow> outbound" where
  "upstream_request apiKey b =
     \<lparr> o_url = ''https://api.anthropic.com/v1/messages'',
       o_method = Some ''POST'',
       o_headers = [(''Content-Type'', ''application/json''),
                    (''x-api-key'', apiKey),
                    (''anthropic-version'', ''2023-06-01'')],
       o_body = Some b,
       o_redirect = None \<rparr>"

text \<open>
  A handler returns its response and the list of the outbound requests it made, in
  order. The \<^verbatim>\<open>try\<close> block is the inner case analysis: every rejection inside it ends in
  the \<^verbatim>\<open>catch\<close>.
\<close>

definition claude_catch :: "string \<Rightarrow> response" where
  "claude_catch m =
     \<lparr> status = 502,
       headers = new_Headers [(''Content-Type'', ''application/json''),
                              (''Access-Control-Allow-Origin'', ''*'')],
       body = Some (JSON_stringify (JObject [(''error'', JString m)])) \<rparr>"

definition onRequestPost :: "network \<Rightarrow> pages_context \<Rightarrow> response \<times> outbound list" where
  "onRequestPost net ctx =
     (let apiKey = ANTHROPIC_API_KEY (c_env ctx) in
      if falsy apiKey then
        (\<lparr> status = 500,
           headers = new_Headers [(''Content-Type'', ''application/json''),
                                  (''Access-Control-Allow-Origin'', ''*'')],
           body = Some (JSON_stringify (JObject [(''error'',
             JString ''ANTHROPIC_API_KEY not configured. Add it in Cloudflare Pages > Settings > Environment variables.'')])) \<rparr>,
         [])
      else
        (case req_text (c_request ctx) of
           Inl m \<Rightarrow> (claude_catch m, [])
         | Inr b \<Rightarrow>
             (let out = upstream_request (the apiKey) b in
              case net out of
                Inl m \<Rightarrow> (claude_catch m, [out])
              | Inr apiResponse \<Rightarrow>
                  (case f_body apiResponse of
                     Inl m \<Rightarrow> (claude_catch m, [out])
                   | Inr responseBody \<Rightarrow>
                       (\<lparr> status = f_status apiResponse,
                          headers = new_Headers [(''Content-Type'', ''application/json''),
                                                 (''Access-Control-Allow-Origin'', ''*'')],
                          body = Some responseBody \<rparr>,
                        [out])))))"

definition claude_onRequestOptions :: "response" where
  "claude_onRequestOptions =
     \<lparr> status = 204,
       headers = new_Headers [(''Access-Control-Allow-Origin'', ''*''),
                              (''Access-Control-Allow-Methods'', ''POST, OPTIONS''),
                              (''Access-Control-Allow-Headers'', ''Content-Type''),
                              (''Access-Control-Max-Age'', ''86400'')],
       body = None \<rparr>"

section \<open>functions/proxy.js\<close>

definition target_request :: "string \<Rightarrow> outbound" where
  "target_request targetUrl =
     \<lparr> o_url = targetUrl,
       o_method = None,
       o_headers = [(''User-Agent'', ''Mozilla/5.0 (compatible; AtHereBot/1.0)''),
                    (''Accept'', ''text/html,application/xhtml+xml,application/xml;q=0.9,*/*;q=0.8''),
                    (''Accept-Language'', ''en-AU,en;q=0.9'')],
       o_body = None,
       o_redirect = Some ''follow'' \<rparr>"

definition proxy_catch :: "string \<Rightarrow> response" where
  "proxy_catch m =
     \<lparr> status = 502,
       headers = new_Headers [(''Access-Control-Allow-Origin'', ''*'')],
       body = Some (''Proxy error: '' @ m) \<rparr>"

definition onRequestGet :: "network \<Rightarrow> pages_context \<Rightarrow> response \<times> outbound list" where
  "onRequestGet net ctx =
     (let targetUrl = searchParams_get (searchParams (url (c_request ctx))) ''url'' in
      if falsy targetUrl then
        (\<lparr> status = 400,
           headers = new_Headers [(''Access-Control-Allow-Origin'', ''*'')],
           body = Some ''Missing url parameter'' \<rparr>,
         [])
      else
        (let out = target_request (the targetUrl) in
         case net out of
           Inl m \<Rightarrow> (proxy_catch m, [out])
         | Inr response \<Rightarrow>
             (case f_body response of
                Inl m \<Rightarrow> (proxy_catch m, [out])
              | Inr b \<Rightarrow>
                  (\<lparr> status = f_status response,
                     headers =
                       hdelete ''X-Frame-Options''
                         (hdelete ''Content-Security-Policy''
                           (hset ''Access-Control-Allow-Origin'' ''*''
                             (new_Headers (f_headers response)))),
                     body = Some b \<rparr>,
                   [out]))))"

definition proxy_onRequestOptions :: "response" where
  "proxy_onRequestOptions =
     \<lparr> status = 204,
       headers = new_Headers [(''Access-Control-Allow-Origin'', ''*''),
                              (''Access-Control-Allow-Methods'', ''GET, OPTIONS''),
                              (''Access-Control-Allow-Headers'', ''Content-Type''),
                              (''Access-Control-Max-Age'', ''86400'')],
       body = None \<rparr>"

section \<open>worker.js\<close>

definition CORS_HEADERS :: "(string \<times> string) list" where
  "CORS_HEADERS =
     [(''Access-Control-Allow-Origin'', ''*''),
      (''Access-Control-Allow-Methods'', ''GET, POST, OPTIONS''),
      (''Access-Control-Allow-Headers'', ''Content-Type, Authorization''),
      (''Access-Control-Max-Age'', ''86400'')]"

text \<open>
  \<^verbatim>\<open>corsResponse(body, init)\<close>: every call of the worker gives \<open>init\<close> a status;
  \<open>init.headers\<close> is \<open>None\<close> where the call leaves it out.
\<close>

definition corsResponse :: "string option \<Rightarrow> nat \<Rightarrow> headers option \<Rightarrow> response" where
  "corsResponse b st init_headers =
     \<lparr> status = st,
       headers = foldl (\<lambda>hs kv. hset (fst kv) (snd kv) hs)
                   (new_Headers (case init_headers of None \<Rightarrow> [] | Some hs \<Rightarrow> hs))
                   CORS_HEADERS,
       body = b \<rparr>"

definition worker_claude_catch :: "string \<Rightarrow> response" where
  "worker_claude_catch m =
     corsResponse (Some (JSON_stringify (JObject [(''error'', JString m)]))) 502
       (Some [(''Content-Type'', ''application/json'')])"

definition worker_proxy_catch :: "string \<Rightarrow> response" where
  "worker_proxy_catch m = corsResponse (Some (''Proxy error: '' @ m)) 502 None"

text \<open>
  The default export's \<^verbatim>\<open>fetch(request, env)\<close>. Its result is a promise: the static
  assets binding, when there is one, answers the requests no route takes, and the
  worker returns what it returns.
\<close>

definition worker_fetch :: "network \<Rightarrow> request \<Rightarrow> env \<Rightarrow> response promise \<times> outbound list" where
  "worker_fetch net request env =
     (if req_method request = ''OPTIONS'' then (Inr (corsResponse None 204 None), [])
      else if pathname (url request) = ''/api/claude'' \<and> req_method request = ''POST'' then
        (let apiKey = ANTHROPIC_API_KEY env in
         if falsy apiKey then
           (Inr (corsResponse
                  (Some (JSON_stringify (JObject [(''error'', JString ''ANTHROPIC_API_KEY not configured'')])))
                  500 (Some [(''Content-Type'', ''application/json'')])),
            [])
         else
           (case req_text request of
              Inl m \<Rightarrow> (Inr (worker_claude_catch m), [])
            | Inr b \<Rightarrow>
                (let out = upstream_request (the apiKey) b in
                 case net out of
                   Inl m \<Rightarrow> (Inr (worker_claude_catch m), [out])
                 | Inr apiResponse \<Rightarrow>
                     (case f_body apiResponse of
                        Inl m \<Rightarrow> (Inr (worker_claude_catch m), [out])
                      | Inr responseBody \<Rightarrow>
                          (Inr (corsResponse (Some responseBody) (f_status apiResponse)
                                 (Some [(''Content-Type'', ''application/json'')])),
                           [out])))))
      else if pathname (url request) = ''/proxy'' then
        (let targetUrl = searchParams_get (searchParams (url request)) ''url'' in
         if falsy targetUrl then (Inr (corsResponse (Some ''Missing url parameter'') 400 None), [])
         else
           (let out = target_request (the targetUrl) in
            case net out of
              Inl m \<Rightarrow> (Inr (worker_proxy_catch m), [out])
            | Inr response \<Rightarrow>
                (case f_body response of
                   Inl m \<Rightarrow> (Inr (worker_proxy_catch m), [out])
                 | Inr b \<Rightarrow>
                     (Inr (corsResponse (Some b) (f_status response)
                            (Some (hdelete ''X-Frame-Options''
                                    (hdelete ''Content-Security-Policy''
                                      (new_Headers (f_headers response)))))),
                      [out]))))
      else
        (case ASSETS env of
           Some assets \<Rightarrow> (assets request, [])
         | None \<Rightarrow> (Inr \<lparr> status = 404, headers = new_Headers [], body = Some ''Not found'' \<rparr>, [])))"

section \<open>sw.js\<close>

definition CACHE :: string where
  "CACHE = ''athere-v20c''"

definition sw_ASSETS :: "string list" where
  "sw_ASSETS = [''/'']"

text \<open>
  A cache bucket is the list of its entries, keyed by the URL of the request; the
  cache storage is the list of the named buckets in the order they were opened.
  \<^verbatim>\<open>caches.match\<close> looks through the buckets in that order, \<^verbatim>\<open>caches.open\<close> makes the
  bucket when there is none, and \<^verbatim>\<open>put\<close> replaces the entries of the URL by the new one.
\<close>

type_synonym cache = "(url \<times> response) list"
type_synonym cache_storage = "(string \<times> cache) list"

fun caches_match :: "cache_storage \<Rightarrow> url \<Rightarrow> response option" where
  "caches_match [] u = None"
| "caches_match (nc # cs) u =
     (case map_of (snd nc) u of Some r \<Rightarrow> Some r | None \<Rightarrow> caches_match cs u)"

definition caches_open :: "string \<Rightarrow> cache_storage \<Rightarrow> cache_storage" where
  "caches_open name st = (if name \<in> set (map fst st) then st else st @ [(name, [])])"

definition cache_put :: "url \<Rightarrow> response \<Rightarrow> cache \<Rightarrow> cache" where
  "cache_put u r c = filter (\<lambda>e. fst e \<noteq> u) c @ [(u, r)]"

definition caches_put :: "string \<Rightarrow> url \<Rightarrow> response \<Rightarrow> cache_storage \<Rightarrow> cache_storage" where
  "caches_put name u r st =
     map (\<lambda>nc. if fst nc = name then (fst nc, cache_put u r (snd nc)) else nc) (caches_open name st)"

definition caches_delete_others :: "string \<Rightarrow> cache_storage \<Rightarrow> cache_storage" where
  "caches_delete_others name st = filter (\<lambda>nc. fst nc = name) st"

text \<open>The entries of the storage: bucket, URL and response.\<close>

definition entries :: "cache_storage \<Rightarrow> (string \<times> url \<times> response) set" where
  "entries st = set (concat (map (\<lambda>nc. map (\<lambda>e. (fst nc, fst e, snd e)) (snd nc)) st))"

text \<open>
  The worker's own \<^verbatim>\<open>fetch\<close> takes a request and gives a response. \<open>resolve\<close> is the
  URL of a path given as a string, such as \<^verbatim>\<open>'/'\<close>, against the worker's location.
\<close>

type_synonym sw_network = "request \<Rightarrow> response promise"

definition resolve :: "url \<Rightarrow> string \<Rightarrow> url" where
  "resolve location p = location\<lparr>pathname := p, searchParams := []\<rparr>"

definition get_request :: "url \<Rightarrow> request" where
  "get_request u = \<lparr> req_method = ''GET'', url = u, req_text = Inr [] \<rparr>"

text \<open>
  \<^verbatim>\<open>cache.addAll(paths)\<close> fetches every path and stores the answers only when each of
  them resolved with an ok status other than 206; otherwise it rejects and stores none.
  The result is whether it resolved, the storage and the requests made.
\<close>

definition addAll ::
  "sw_network \<Rightarrow> url \<Rightarrow> string \<Rightarrow> string list \<Rightarrow> cache_storage \<Rightarrow> bool \<times> cache_storage \<times> request list" where
  "addAll net location name paths st =
     (let reqs = map (\<lambda>p. get_request (resolve location p)) paths;
          answers = map net reqs
      in if list_all (\<lambda>a. case a of Inl m \<Rightarrow> False | Inr r \<Rightarrow> ok r \<and> status r \<noteq> 206) answers
         then (True,
               foldl (\<lambda>s qa. case snd qa of Inl m \<Rightarrow> s | Inr r \<Rightarrow> caches_put name (url (fst qa)) r s)
                 st (zip reqs answers),
               reqs)
         else (False, st, reqs))"

text \<open>The install listener: the \<^verbatim>\<open>catch\<close> drops a rejection of \<^verbatim>\<open>addAll\<close>.\<close>

definition install :: "sw_network \<Rightarrow> url \<Rightarrow> cache_storage \<Rightarrow> cache_storage \<times> request list" where
  "install net location st =
     (let r = addAll net location CACHE sw_ASSETS (caches_open CACHE st)
      in (fst (snd r), snd (snd r)))"

definition activate :: "cache_storage \<Rightarrow> cache_storage" where
  "activate st = caches_delete_others CACHE st"

text \<open>
  The fetch listener. \<open>NotIntercepted\<close>: the listener returned without
  \<^verbatim>\<open>respondWith\<close>. \<open>Responded x\<close>: it answered with what the promise resolved to,
  a response or \<^verbatim>\<open>undefined\<close>. The result carries the storage once the pending
  \<^verbatim>\<open>put\<close> has run, and the requests the listener sent to the network.
\<close>

datatype answer = NotIntercepted | Responded "response option"

definition sw_fetch ::
  "url \<Rightarrow> sw_network \<Rightarrow> cache_storage \<Rightarrow> request \<Rightarrow> answer \<times> cache_storage \<times> request list" where
  "sw_fetch location net st request =
     (let u = url request in
      if prefix ''/api/'' (pathname u) \<or> pathname u = ''/proxy'' \<or>
         hostname u \<noteq> hostname location \<or> req_method request \<noteq> ''GET''
      then (NotIntercepted, st, [])
      else
        (case caches_match st u of
           Some r \<Rightarrow> (Responded (Some r), st, [])
         | None \<Rightarrow>
             (case net request of
                Inr res \<Rightarrow>
                  (Responded (Some res),
                   (if ok res \<and> origin u = origin location then caches_put CACHE u res st else st),
                   [request])
              | Inl m \<Rightarrow> (Responded (caches_match st (resolve location ''/'')), st, [request]))))"


section \<open>Example requests and networks\<close>

definition site :: url where
  "site = \<lparr> protocol = ''https:'', hostname = ''athere.example'', port = [],
            pathname = ''/'', searchParams = [] \<rparr>"

definition unreachable :: network where
  "unreachable out = Inl ''Network connection lost.''"

definition env_no_key :: env where
  "env_no_key = \<lparr> ANTHROPIC_API_KEY = None, ASSETS = None \<rparr>"

definition env_with_key :: env where
  "env_with_key = \<lparr> ANTHROPIC_API_KEY = Some ''sk-ant-test'', ASSETS = None \<rparr>"

definition get_proxy_bare :: request where
  "get_proxy_bare = \<lparr> req_method = ''GET'', url = site\<lparr>pathname := ''/proxy''\<rparr>, req_text = Inr [] \<rparr>"

definition get_proxy_empty :: request where
  "get_proxy_empty =
     \<lparr> req_method = ''GET'',
       url = site\<lparr>pathname := ''/proxy'', searchParams := [(''url'', [])]\<rparr>,
       req_text = Inr [] \<rparr>"


definition options_claude :: request where
  "options_claude =
     \<lparr> req_method = ''OPTIONS'', url = site\<lparr>pathname := ''/api/claude''\<rparr>, req_text = Inr [] \<rparr>"

definition options_proxy :: request where
  "options_proxy =
     \<lparr> req_method = ''OPTIONS'', url = site\<lparr>pathname := ''/proxy''\<rparr>, req_text = Inr [] \<rparr>"

text \<open>A POST of the body \<^verbatim>\<open>{"model":"x"}\<close>.\<close>

definition model_x :: string where
  "model_x = ''{'' @ [CHR 0x22] @ ''model'' @ [CHR 0x22] @ '':'' @ [CHR 0x22] @ ''x'' @ [CHR 0x22] @ ''}''"

definition post_claude :: request where
  "post_claude =
     \<lparr> req_method = ''POST'', url = site\<lparr>pathname := ''/api/claude''\<rparr>, req_text = Inr model_x \<rparr>"

text \<open>An upstream that answers 200 with the body \<^verbatim>\<open>{"id":"msg_1"}\<close>.\<close>

definition msg_1 :: string where
  "msg_1 = ''{'' @ [CHR 0x22] @ ''id'' @ [CHR 0x22] @ '':'' @ [CHR 0x22] @ ''msg_1'' @ [CHR 0x22] @ ''}''"

definition msg_1_answer :: fetched where
  "msg_1_answer =
     \<lparr> f_status = 200, f_headers = [(''content-type'', ''application/json'')], f_body = Inr msg_1 \<rparr>"

definition upstream_ok :: network where
  "upstream_ok out = Inr msg_1_answer"


text \<open>A target that sends the two security headers and a preflight lifetime of its own.\<close>

definition article_answer :: fetched where
  "article_answer =
     \<lparr> f_status = 200,
       f_headers = [(''content-type'', ''text/html''),
                    (''content-security-policy'', ''default-src https:''),
                    (''x-frame-options'', ''DENY''),
                    (''access-control-max-age'', ''5'')],
       f_body = Inr ''<html></html>'' \<rparr>"

definition article_site :: network where
  "article_site out = Inr article_answer"

text \<open>The service worker at \<^verbatim>\<open>/sw.js\<close>, a script of the site and the root document.\<close>

definition sw_location :: url where
  "sw_location = site\<lparr>pathname := ''/sw.js''\<rparr>"

definition get_app :: request where
  "get_app = get_request (site\<lparr>pathname := ''/app.js''\<rparr>)"

definition app_answer :: response where
  "app_answer =
     \<lparr> status = 200, headers = [(''content-type'', ''text/javascript'')], body = Some ''console.log(1)'' \<rparr>"

definition root_answer :: response where
  "root_answer =
     \<lparr> status = 200, headers = [(''content-type'', ''text/html'')], body = Some ''<html></html>'' \<rparr>"

definition online :: sw_network where
  "online request = Inr (if pathname (url request) = ''/'' then root_answer else app_answer)"


definition not_found :: sw_network where
  "not_found request = Inr \<lparr> status = 404, headers = [], body = Some ''Not found'' \<rparr>"

definition get_proxy_page :: request where
  "get_proxy_page = get_request (site\<lparr>pathname := ''/proxy''\<rparr>)"



section \<open>Facts about header lists\<close>

lemma falsy_None: "falsy None"
  by (simp add: falsy_def)

lemma falsy_Some: "falsy (Some s) = (s = [])"
  by (simp add: falsy_def)

lemma new_Headers_id: "new_Headers xs = xs"
proof -
  have "foldl (\<lambda>hs kv. happend (fst kv) (snd kv) hs) acc xs = acc @ xs" for acc
    by (induction xs arbitrary: acc) (simp_all add: happend_def)
  then show ?thesis by (simp add: new_Headers_def)
qed

lemma hget_Nil: "hget n [] = None"
  by (simp add: hget_def)

lemma hget_Cons:
  "hget n (kv # hs) =
     (if name_eq (fst kv) n
      then Some (case hget n hs of None \<Rightarrow> snd kv | Some w \<Rightarrow> snd kv @ '', '' @ w)
      else hget n hs)"
  by (cases "filter (\<lambda>kv. name_eq (fst kv) n) hs") (simp_all add: hget_def)

lemma hget_hdelete_same: "name_eq m n \<Longrightarrow> hget m (hdelete n hs) = None"
  by (induction hs) (auto simp: hdelete_def hget_def name_eq_def)

lemma hget_hdelete_other: "\<not> name_eq m n \<Longrightarrow> hget m (hdelete n hs) = hget m hs"
proof -
  assume a: "\<not> name_eq m n"
  have "filter (\<lambda>kv. name_eq (fst kv) m) (hdelete n hs) = filter (\<lambda>kv. name_eq (fst kv) m) hs"
    using a by (induction hs) (auto simp: hdelete_def name_eq_def)
  then show ?thesis by (simp add: hget_def)
qed

lemma hget_hset_same: "name_eq m n \<Longrightarrow> hget m (hset n v hs) = Some v"
  by (induction hs) (auto simp: hget_Cons hget_Nil hget_hdelete_same name_eq_def)

lemma hget_hset_other: "\<not> name_eq m n \<Longrightarrow> hget m (hset n v hs) = hget m hs"
  by (induction hs) (auto simp: hget_Cons hget_Nil hget_hdelete_other name_eq_def)

section \<open>The URL-fetch proxy: a missing or empty target\<close>

text \<open>
  Claim C6. A GET request to \<^verbatim>\<open>/proxy\<close> whose query string has no \<^verbatim>\<open>url\<close> parameter is
  answered with status 400, and no outbound fetch is made: the list of outbound
  requests is empty. This holds for the Pages function and for the worker.
\<close>

theorem proxy_without_url_is_400:
  assumes "searchParams_get (searchParams (url req)) ''url'' = None"
    and "req_method req = ''GET''" and "pathname (url req) = ''/proxy''"
  shows "(\<exists>r. onRequestGet net \<lparr>c_request = req, c_env = e\<rparr> = (r, []) \<and> status r = 400) \<and>
         (\<exists>r. worker_fetch net req e = (Inr r, []) \<and> status r = 400)"
  using assms by (simp add: onRequestGet_def worker_fetch_def falsy_None corsResponse_def)

theorem proxy_without_url_is_400_witness:
  "searchParams_get (searchParams (url get_proxy_bare)) ''url'' = None \<and>
   req_method get_proxy_bare = ''GET'' \<and> pathname (url get_proxy_bare) = ''/proxy'' \<and>
   (\<exists>r. onRequestGet article_site \<lparr>c_request = get_proxy_bare, c_env = env_no_key\<rparr> = (r, []) \<and>
        status r = 400) \<and>
   (\<exists>r. worker_fetch article_site get_proxy_bare env_no_key = (Inr r, []) \<and> status r = 400)"
proof -
  have h1: "searchParams_get (searchParams (url get_proxy_bare)) ''url'' = None"
    by (simp add: get_proxy_bare_def site_def)
  have h2: "req_method get_proxy_bare = ''GET''"
    by (simp add: get_proxy_bare_def)
  have h3: "pathname (url get_proxy_bare) = ''/proxy''"
    by (simp add: get_proxy_bare_def)
  from proxy_without_url_is_400 [OF h1 h2 h3, of article_site env_no_key] h1 h2 h3
  show ?thesis by blast
qed

text \<open>
  Claim C10. A GET request to \<^verbatim>\<open>/proxy\<close> whose \<^verbatim>\<open>url\<close> parameter is present and empty
  (\<^verbatim>\<open>/proxy?url=\<close>) is treated as one without the parameter: status 400, no outbound
  fetch, and the very result the handler gives for the same request with an empty
  query string.
\<close>

theorem proxy_empty_url_like_missing:
  assumes "searchParams_get (searchParams (url req)) ''url'' = Some []"
    and "req_method req = ''GET''" and "pathname (url req) = ''/proxy''"
  shows "(\<exists>r. onRequestGet net \<lparr>c_request = req, c_env = e\<rparr> = (r, []) \<and> status r = 400) \<and>
         (\<exists>r. worker_fetch net req e = (Inr r, []) \<and> status r = 400) \<and>
         onRequestGet net \<lparr>c_request = req, c_env = e\<rparr> =
           onRequestGet net \<lparr>c_request = req\<lparr>url := (url req)\<lparr>searchParams := []\<rparr>\<rparr>, c_env = e\<rparr> \<and>
         worker_fetch net req e = worker_fetch net (req\<lparr>url := (url req)\<lparr>searchParams := []\<rparr>\<rparr>) e"
  using assms
  by (simp add: onRequestGet_def worker_fetch_def falsy_None falsy_Some corsResponse_def)

theorem proxy_empty_url_like_missing_witness:
  "searchParams_get (searchParams (url get_proxy_empty)) ''url'' = Some [] \<and>
   req_method get_proxy_empty = ''GET'' \<and> pathname (url get_proxy_empty) = ''/proxy'' \<and>
   (\<exists>r. onRequestGet article_site \<lparr>c_request = get_proxy_empty, c_env = env_no_key\<rparr> = (r, []) \<and>
        status r = 400) \<and>
   (\<exists>r. worker_fetch article_site get_proxy_empty env_no_key = (Inr r, []) \<and> status r = 400)"
proof -
  have h1: "searchParams_get (searchParams (url get_proxy_empty)) ''url'' = Some []"
    by (simp add: get_proxy_empty_def site_def)
  have h2: "req_method get_proxy_empty = ''GET''"
    by (simp add: get_proxy_empty_def)
  have h3: "pathname (url get_proxy_empty) = ''/proxy''"
    by (simp add: get_proxy_empty_def)
  from proxy_empty_url_like_missing [OF h1 h2 h3, of article_site env_no_key] h1 h2 h3
  show ?thesis by blast
qed

section \<open>Facts about the worker's CORS headers\<close>

lemma cors_headers:
  "headers (corsResponse b st ih) =
     hset ''Access-Control-Max-Age'' ''86400''
       (hset ''Access-Control-Allow-Headers'' ''Content-Type, Authorization''
         (hset ''Access-Control-Allow-Methods'' ''GET, POST, OPTIONS''
           (hset ''Access-Control-Allow-Origin'' ''*''
             (case ih of None \<Rightarrow> [] | Some hs \<Rightarrow> hs))))"
  by (simp add: corsResponse_def CORS_HEADERS_def new_Headers_id)

lemma cors_status: "status (corsResponse b st ih) = st"
  by (simp add: corsResponse_def)

lemma cors_body: "body (corsResponse b st ih) = b"
  by (simp add: corsResponse_def)

lemma lower_names:
  "map lower_char ''Access-Control-Allow-Origin'' = ''access-control-allow-origin''"
  "map lower_char ''Access-Control-Allow-Methods'' = ''access-control-allow-methods''"
  "map lower_char ''Access-Control-Allow-Headers'' = ''access-control-allow-headers''"
  "map lower_char ''Access-Control-Max-Age'' = ''access-control-max-age''"
  "map lower_char ''Content-Security-Policy'' = ''content-security-policy''"
  "map lower_char ''X-Frame-Options'' = ''x-frame-options''"
  "map lower_char ''Content-Type'' = ''content-type''"
  "map lower_char ''x-api-key'' = ''x-api-key''"
  "map lower_char ''anthropic-version'' = ''anthropic-version''"
  by (simp_all add: lower_char_def)

lemma names_differ:
  "\<not> name_eq ''Access-Control-Allow-Origin'' ''Access-Control-Allow-Methods''"
  "\<not> name_eq ''Access-Control-Allow-Origin'' ''Access-Control-Allow-Headers''"
  "\<not> name_eq ''Access-Control-Allow-Origin'' ''Access-Control-Max-Age''"
  "\<not> name_eq ''Access-Control-Allow-Methods'' ''Access-Control-Allow-Headers''"
  "\<not> name_eq ''Access-Control-Allow-Methods'' ''Access-Control-Max-Age''"
  "\<not> name_eq ''Access-Control-Allow-Headers'' ''Access-Control-Max-Age''"
  "\<not> name_eq ''Content-Type'' ''Access-Control-Allow-Origin''"
  "\<not> name_eq ''Content-Type'' ''Access-Control-Allow-Methods''"
  "\<not> name_eq ''Content-Type'' ''Access-Control-Allow-Headers''"
  "\<not> name_eq ''Content-Type'' ''Access-Control-Max-Age''"
  "\<not> name_eq ''Content-Security-Policy'' ''Access-Control-Allow-Origin''"
  "\<not> name_eq ''Content-Security-Policy'' ''Access-Control-Allow-Methods''"
  "\<not> name_eq ''Content-Security-Policy'' ''Access-Control-Allow-Headers''"
  "\<not> name_eq ''Content-Security-Policy'' ''Access-Control-Max-Age''"
  "\<not> name_eq ''Content-Security-Policy'' ''X-Frame-Options''"
  "\<not> name_eq ''X-Frame-Options'' ''Access-Control-Allow-Origin''"
  "\<not> name_eq ''X-Frame-Options'' ''Access-Control-Allow-Methods''"
  "\<not> name_eq ''X-Frame-Options'' ''Access-Control-Allow-Headers''"
  "\<not> name_eq ''X-Frame-Options'' ''Access-Control-Max-Age''"
  "\<not> name_eq ''X-Frame-Options'' ''Content-Security-Policy''"
  "\<not> name_eq ''Access-Control-Allow-Origin'' ''Content-Type''"
  "\<not> name_eq ''x-api-key'' ''Content-Type''"
  "\<not> name_eq ''Content-Type'' ''x-api-key''"
  "\<not> name_eq ''Access-Control-Allow-Methods'' ''Access-Control-Allow-Origin''"
  "\<not> name_eq ''Access-Control-Allow-Headers'' ''Access-Control-Allow-Origin''"
  "\<not> name_eq ''Access-Control-Max-Age'' ''Access-Control-Allow-Origin''"
  "\<not> name_eq ''Access-Control-Allow-Headers'' ''Access-Control-Allow-Methods''"
  "\<not> name_eq ''Access-Control-Max-Age'' ''Access-Control-Allow-Methods''"
  "\<not> name_eq ''Access-Control-Max-Age'' ''Access-Control-Allow-Headers''"
  "\<not> name_eq ''Access-Control-Allow-Methods'' ''Content-Type''"
  "\<not> name_eq ''Access-Control-Allow-Headers'' ''Content-Type''"
  "\<not> name_eq ''Access-Control-Max-Age'' ''Content-Type''"
  "\<not> name_eq ''Access-Control-Allow-Origin'' ''Content-Security-Policy''"
  "\<not> name_eq ''Access-Control-Allow-Methods'' ''Content-Security-Policy''"
  "\<not> name_eq ''Access-Control-Allow-Headers'' ''Content-Security-Policy''"
  "\<not> name_eq ''Access-Control-Max-Age'' ''Content-Security-Policy''"
  "\<not> name_eq ''Access-Control-Allow-Origin'' ''X-Frame-Options''"
  "\<not> name_eq ''Access-Control-Allow-Methods'' ''X-Frame-Options''"
  "\<not> name_eq ''Access-Control-Allow-Headers'' ''X-Frame-Options''"
  "\<not> name_eq ''Access-Control-Max-Age'' ''X-Frame-Options''"
  "\<not> name_eq ''anthropic-version'' ''x-api-key''"
  "\<not> name_eq ''x-api-key'' ''anthropic-version''"
  unfolding name_eq_def lower_names by simp_all

lemma name_eq_refl: "name_eq n n"
  by (simp add: name_eq_def)

lemma name_eq_sym: "name_eq a b = name_eq b a"
  by (auto simp: name_eq_def)

lemma cors_get:
  "hget ''Access-Control-Allow-Origin'' (headers (corsResponse b st ih)) = Some ''*''"
  "hget ''Access-Control-Allow-Methods'' (headers (corsResponse b st ih)) = Some ''GET, POST, OPTIONS''"
  "hget ''Access-Control-Allow-Headers'' (headers (corsResponse b st ih)) = Some ''Content-Type, Authorization''"
  "hget ''Access-Control-Max-Age'' (headers (corsResponse b st ih)) = Some ''86400''"
  by (simp_all add: cors_headers hget_hset_same hget_hset_other name_eq_refl names_differ)




section \<open>The AI proxy without a credential\<close>

text \<open>
  Claim C2, as stated, is about every request to \<^verbatim>\<open>/api/claude\<close>. The worker answers
  an OPTIONS request to that path before it looks at the credential: with no
  credential configured the status is 204, not 500.
\<close>

theorem no_key_options_counterexample:
  "map_sum id status (fst (worker_fetch unreachable options_claude env_no_key)) = Inr 204"
  by (simp add: worker_fetch_def options_claude_def cors_status)

text \<open>
  Claim C2, amended. For every POST request to \<^verbatim>\<open>/api/claude\<close> when no credential is
  configured (the key is undefined or empty), the handler returns status exactly 500,
  the body is the JSON text of an object with an \<^verbatim>\<open>error\<close> field, and no outbound request
  is made. This holds for the Pages function and for the worker.
\<close>

theorem no_key_post_is_500:
  assumes "falsy (ANTHROPIC_API_KEY e)"
    and "req_method req = ''POST''" and "pathname (url req) = ''/api/claude''"
  shows "(\<exists>r msg. onRequestPost net \<lparr>c_request = req, c_env = e\<rparr> = (r, []) \<and> status r = 500 \<and>
            body r = Some (JSON_stringify (JObject [(''error'', JString msg)]))) \<and>
         (\<exists>r msg. worker_fetch net req e = (Inr r, []) \<and> status r = 500 \<and>
            body r = Some (JSON_stringify (JObject [(''error'', JString msg)])))"
proof
  show "\<exists>r msg. onRequestPost net \<lparr>c_request = req, c_env = e\<rparr> = (r, []) \<and> status r = 500 \<and>
            body r = Some (JSON_stringify (JObject [(''error'', JString msg)]))"
    using assms by (auto simp: onRequestPost_def simp del: JSON_stringify.simps)
  show "\<exists>r msg. worker_fetch net req e = (Inr r, []) \<and> status r = 500 \<and>
            body r = Some (JSON_stringify (JObject [(''error'', JString msg)]))"
    using assms by (auto simp: worker_fetch_def corsResponse_def simp del: JSON_stringify.simps)
qed

theorem no_key_post_is_500_witness:
  "falsy (ANTHROPIC_API_KEY env_no_key) \<and> req_method post_claude = ''POST'' \<and>
   pathname (url post_claude) = ''/api/claude'' \<and>
   (\<exists>r msg. onRequestPost upstream_ok \<lparr>c_request = post_claude, c_env = env_no_key\<rparr> = (r, []) \<and>
      status r = 500 \<and> body r = Some (JSON_stringify (JObject [(''error'', JString msg)]))) \<and>
   (\<exists>r msg. worker_fetch upstream_ok post_claude env_no_key = (Inr r, []) \<and>
      status r = 500 \<and> body r = Some (JSON_stringify (JObject [(''error'', JString msg)])))"
proof -
  have h1: "falsy (ANTHROPIC_API_KEY env_no_key)"
    by (simp add: env_no_key_def falsy_None)
  have h2: "req_method post_claude = ''POST''"
    by (simp add: post_claude_def)
  have h3: "pathname (url post_claude) = ''/api/claude''"
    by (simp add: post_claude_def)
  from no_key_post_is_500 [OF h1 h2 h3, of upstream_ok] h1 h2 h3
  show ?thesis by blast
qed

section \<open>Preflight requests\<close>

text \<open>
  Claim C7, as stated, has an OPTIONS request to \<^verbatim>\<open>/proxy\<close> advertise exactly
  \<^verbatim>\<open>GET, OPTIONS\<close>. The worker answers every OPTIONS request with its one
  \<^verbatim>\<open>CORS_HEADERS\<close> table, which advertises \<^verbatim>\<open>GET, POST, OPTIONS\<close>.
\<close>

theorem options_worker_methods_counterexample:
  "map_sum id (\<lambda>r. hget ''Access-Control-Allow-Methods'' (headers r))
     (fst (worker_fetch unreachable options_proxy env_no_key)) = Inr (Some ''GET, POST, OPTIONS'')"
  by (simp add: worker_fetch_def options_proxy_def cors_get)

text \<open>
  Claim C7, amended. Every OPTIONS request receives status exactly 204 with a null
  body and no outbound request: from the worker on any path, and from the preflight
  responders of the two Pages functions. The allowed methods advertised for \<^verbatim>\<open>/proxy\<close>
  are exactly \<^verbatim>\<open>GET, OPTIONS\<close> from the Pages function and \<^verbatim>\<open>GET, POST, OPTIONS\<close> from
  the worker; the Pages function of \<^verbatim>\<open>/api/claude\<close> advertises \<^verbatim>\<open>POST, OPTIONS\<close>.
\<close>

theorem options_is_204_empty:
  assumes "req_method req = ''OPTIONS''"
  shows "(\<exists>r. worker_fetch net req e = (Inr r, []) \<and> status r = 204 \<and> body r = None \<and>
            hget ''Access-Control-Allow-Methods'' (headers r) = Some ''GET, POST, OPTIONS'') \<and>
         status claude_onRequestOptions = 204 \<and> body claude_onRequestOptions = None \<and>
         hget ''Access-Control-Allow-Methods'' (headers claude_onRequestOptions) = Some ''POST, OPTIONS'' \<and>
         status proxy_onRequestOptions = 204 \<and> body proxy_onRequestOptions = None \<and>
         hget ''Access-Control-Allow-Methods'' (headers proxy_onRequestOptions) = Some ''GET, OPTIONS''"
proof -
  have w: "\<exists>r. worker_fetch net req e = (Inr r, []) \<and> status r = 204 \<and> body r = None \<and>
            hget ''Access-Control-Allow-Methods'' (headers r) = Some ''GET, POST, OPTIONS''"
    using assms by (simp add: worker_fetch_def cors_get cors_status cors_body)
  have c: "hget ''Access-Control-Allow-Methods'' (headers claude_onRequestOptions) = Some ''POST, OPTIONS''"
    by (simp add: claude_onRequestOptions_def new_Headers_id hget_Cons hget_Nil name_eq_refl
          names_differ)
  have p: "hget ''Access-Control-Allow-Methods'' (headers proxy_onRequestOptions) = Some ''GET, OPTIONS''"
    by (simp add: proxy_onRequestOptions_def new_Headers_id hget_Cons hget_Nil name_eq_refl
          names_differ)
  from w c p show ?thesis
    by (simp add: claude_onRequestOptions_def proxy_onRequestOptions_def)
qed

theorem options_is_204_empty_witness:
  "req_method options_proxy = ''OPTIONS'' \<and>
   (\<exists>r. worker_fetch unreachable options_proxy env_with_key = (Inr r, []) \<and>
        status r = 204 \<and> body r = None)"
proof -
  have h: "req_method options_proxy = ''OPTIONS''"
    by (simp add: options_proxy_def)
  from options_is_204_empty [OF h, of unreachable env_with_key] h
  show ?thesis by blast
qed

section \<open>The AI proxy relays the upstream\<close>



section \<open>Errors of the outbound fetch\<close>

lemma concat_quote_plain:
  "\<forall>c \<in> set m. quote_char c = [c] \<Longrightarrow> concat (map quote_char m) = m"
  by (induction m) simp_all









text \<open>
  The JSON text of the error object holds a message literally when none of its
  characters is one that JSON escapes.
\<close>

lemma stringify_error_plain:
  assumes "\<forall>c \<in> set m. quote_char c = [c]"
  shows "JSON_stringify (JObject [(''error'', JString m)]) =
           ''{'' @ [CHR 0x22] @ ''error'' @ [CHR 0x22] @ '':'' @ [CHR 0x22] @ m @ [CHR 0x22] @ ''}''"
proof -
  have "QuoteJSONString ''error'' = [CHR 0x22] @ ''error'' @ [CHR 0x22]"
    by (simp add: QuoteJSONString_def quote_char_def)
  then show ?thesis
    using concat_quote_plain [OF assms] by (simp add: QuoteJSONString_def)
qed



section \<open>The credential\<close>









section \<open>The URL-fetch proxy relays the target\<close>






section \<open>The offline cache worker\<close>

lemma entries_Nil: "entries [] = {}"
  by (simp add: entries_def)

lemma entries_Cons: "entries (nc # st) = (\<lambda>e. (fst nc, fst e, snd e)) ` set (snd nc) \<union> entries st"
  by (auto simp: entries_def)

lemma entries_append: "entries (st @ st') = entries st \<union> entries st'"
  by (simp add: entries_def)

lemma entries_caches_open: "entries (caches_open name st) = entries st"
  by (simp add: caches_open_def entries_append entries_Cons entries_Nil)

lemma set_cache_put: "set (cache_put u r c) \<subseteq> insert (u, r) (set c)"
  by (auto simp: cache_put_def)

lemma entries_put_buckets:
  "entries (map (\<lambda>nc. if fst nc = name then (fst nc, cache_put u r (snd nc)) else nc) st)
     \<subseteq> insert (name, u, r) (entries st)"
proof (induction st)
  case Nil
  then show ?case by (simp add: entries_Nil)
next
  case (Cons nc st)
  then show ?case
    using set_cache_put [of u r "snd nc"] by (auto simp: entries_Cons)
qed

lemma entries_caches_put: "entries (caches_put name u r st) \<subseteq> insert (name, u, r) (entries st)"
  using entries_put_buckets [of name u r "caches_open name st"]
  by (simp add: caches_put_def entries_caches_open)

lemma entries_activate: "entries (activate st) \<subseteq> entries st"
  by (auto simp: activate_def caches_delete_others_def entries_def)

lemma origin_resolve: "origin (resolve location p) = origin location"
  by (simp add: origin_def resolve_def)

lemma sw_fetch_bypass:
  assumes "prefix ''/api/'' (pathname (url req)) \<or> pathname (url req) = ''/proxy'' \<or>
           hostname (url req) \<noteq> hostname location \<or> req_method req \<noteq> ''GET''"
  shows "sw_fetch location net st req = (NotIntercepted, st, [])"
  using assms by (simp add: sw_fetch_def)

lemma sw_fetch_no_write:
  assumes "net req = Inr res" and "\<not> ok res \<or> origin (url req) \<noteq> origin location"
  shows "fst (snd (sw_fetch location net st req)) = st"
  using assms by (auto simp: sw_fetch_def Let_def split: option.splits)

lemma sw_fetch_written:
  assumes "x \<in> entries (fst (snd (sw_fetch location net st req))) - entries st"
  shows "req_method req = ''GET'' \<and> origin (url req) = origin location \<and>
         hostname (url req) = hostname location \<and> pathname (url req) \<noteq> ''/proxy'' \<and>
         \<not> prefix ''/api/'' (pathname (url req)) \<and> caches_match st (url req) = None \<and>
         (\<exists>res. net req = Inr res \<and> ok res \<and> x = (CACHE, url req, res) \<and>
            sw_fetch location net st req = (Responded (Some res), caches_put CACHE (url req) res st, [req]))"
proof (cases "prefix ''/api/'' (pathname (url req)) \<or> pathname (url req) = ''/proxy'' \<or>
           hostname (url req) \<noteq> hostname location \<or> req_method req \<noteq> ''GET''")
  case True
  from sw_fetch_bypass [OF True] assms show ?thesis by simp
next
  case False
  show ?thesis
  proof (cases "caches_match st (url req)")
    case (Some r)
    with False assms show ?thesis by (simp add: sw_fetch_def)
  next
    case None
    show ?thesis
    proof (cases "net req")
      case (Inl m)
      with None False assms show ?thesis by (simp add: sw_fetch_def)
    next
      case (Inr res)
      show ?thesis
      proof (cases "ok res \<and> origin (url req) = origin location")
        case True
        with Inr None False
        have eq: "sw_fetch location net st req =
                (Responded (Some res), caches_put CACHE (url req) res st, [req])"
          by (simp add: sw_fetch_def)
        with assms entries_caches_put [of CACHE "url req" res st]
        have "x = (CACHE, url req, res)" by auto
        with eq True Inr None False show ?thesis by simp
      next
        case no: False
        with Inr None False assms show ?thesis by (auto simp: sw_fetch_def)
      qed
    qed
  qed
qed

lemma addAll_root:
  "addAll net location name [p] st =
     (case net (get_request (resolve location p)) of
        Inl m \<Rightarrow> (False, st, [get_request (resolve location p)])
      | Inr r \<Rightarrow>
          if ok r \<and> status r \<noteq> 206
          then (True, caches_put name (resolve location p) r st, [get_request (resolve location p)])
          else (False, st, [get_request (resolve location p)]))"
  by (simp add: addAll_def Let_def get_request_def split: sum.splits)

lemma install_written:
  assumes "x \<in> entries (fst (install net location st)) - entries st"
  shows "\<exists>res. net (get_request (resolve location ''/'')) = Inr res \<and> ok res \<and>
           x = (CACHE, resolve location ''/'', res)"
proof (cases "net (get_request (resolve location ''/''))")
  case (Inl m)
  with assms show ?thesis
    by (simp add: install_def sw_ASSETS_def addAll_root entries_caches_open)
next
  case (Inr r)
  show ?thesis
  proof (cases "ok r \<and> status r \<noteq> 206")
    case True
    with Inr have "fst (install net location st) =
        caches_put CACHE (resolve location ''/'') r (caches_open CACHE st)"
      by (simp add: install_def sw_ASSETS_def addAll_root)
    with assms entries_caches_put [of CACHE "resolve location ''/''" r "caches_open CACHE st"]
    have "x = (CACHE, resolve location ''/'', r)"
      by (auto simp: entries_caches_open)
    with Inr True show ?thesis by simp
  next
    case False
    with Inr assms show ?thesis
      by (auto simp: install_def sw_ASSETS_def addAll_root entries_caches_open)
  qed
qed

lemma sw_fetch_get_app:
  "sw_fetch sw_location online [] get_app =
     (Responded (Some app_answer), [(CACHE, [(url get_app, app_answer)])], [get_app])"
  by (simp add: sw_fetch_def get_app_def get_request_def sw_location_def site_def online_def
        app_answer_def ok_def origin_def caches_put_def caches_open_def cache_put_def Let_def)

text \<open>
  Claim C8. The service worker writes a cache entry only for a response that is
  status-ok, same-origin and obtained for a GET request. Every entry of the storage
  after the fetch listener that was not there before is the answer of the network to
  the intercepted request, stored in the bucket \<open>CACHE\<close> under the URL of the request:
  the request is a GET of the worker's own origin, outside \<^verbatim>\<open>/proxy\<close> and \<^verbatim>\<open>/api/\<close>, and
  the answer is ok. Every entry the install listener adds is the ok answer to a GET of
  the root document of the worker's own origin, and the activate listener adds none.
  A request that is not a GET, is for another host or is for a proxy path is not
  intercepted: the storage is unchanged and no request is sent. An answer that is not
  ok, or is for a request of another origin, leaves the storage unchanged.
\<close>

theorem cache_write_only_ok_same_origin_get:
  "(\<forall>x \<in> entries (fst (snd (sw_fetch location net st req))) - entries st.
      req_method req = ''GET'' \<and> origin (url req) = origin location \<and>
      hostname (url req) = hostname location \<and> pathname (url req) \<noteq> ''/proxy'' \<and>
      \<not> prefix ''/api/'' (pathname (url req)) \<and>
      (\<exists>res. net req = Inr res \<and> ok res \<and> x = (CACHE, url req, res))) \<and>
   (\<forall>x \<in> entries (fst (install net location st)) - entries st.
      \<exists>res. net (get_request (resolve location ''/'')) = Inr res \<and> ok res \<and>
        x = (CACHE, resolve location ''/'', res)) \<and>
   req_method (get_request (resolve location ''/'')) = ''GET'' \<and>
   origin (resolve location ''/'') = origin location \<and>
   entries (activate st) \<subseteq> entries st \<and>
   (prefix ''/api/'' (pathname (url req)) \<or> pathname (url req) = ''/proxy'' \<or>
    hostname (url req) \<noteq> hostname location \<or> req_method req \<noteq> ''GET'' \<longrightarrow>
      sw_fetch location net st req = (NotIntercepted, st, [])) \<and>
   (\<forall>res. net req = Inr res \<and> (\<not> ok res \<or> origin (url req) \<noteq> origin location) \<longrightarrow>
      fst (snd (sw_fetch location net st req)) = st)"
proof (intro conjI ballI allI impI)
  fix x
  assume "x \<in> entries (fst (snd (sw_fetch location net st req))) - entries st"
  from sw_fetch_written [OF this]
  show "req_method req = ''GET''" and "origin (url req) = origin location"
    and "hostname (url req) = hostname location" and "pathname (url req) \<noteq> ''/proxy''"
    and "\<not> prefix ''/api/'' (pathname (url req))"
    and "\<exists>res. net req = Inr res \<and> ok res \<and> x = (CACHE, url req, res)"
    by blast+
next
  fix x
  assume "x \<in> entries (fst (install net location st)) - entries st"
  from install_written [OF this]
  show "\<exists>res. net (get_request (resolve location ''/'')) = Inr res \<and> ok res \<and>
          x = (CACHE, resolve location ''/'', res)" .
next
  show "req_method (get_request (resolve location ''/'')) = ''GET''"
    by (simp add: get_request_def)
  show "origin (resolve location ''/'') = origin location"
    by (rule origin_resolve)
  show "entries (activate st) \<subseteq> entries st"
    by (rule entries_activate)
next
  assume "prefix ''/api/'' (pathname (url req)) \<or> pathname (url req) = ''/proxy'' \<or>
    hostname (url req) \<noteq> hostname location \<or> req_method req \<noteq> ''GET''"
  then show "sw_fetch location net st req = (NotIntercepted, st, [])"
    by (rule sw_fetch_bypass)
next
  fix res
  assume "net req = Inr res \<and> (\<not> ok res \<or> origin (url req) \<noteq> origin location)"
  then show "fst (snd (sw_fetch location net st req)) = st"
    using sw_fetch_no_write [of net req res location st] by blast
qed

theorem cache_write_only_ok_same_origin_get_witness:
  "(CACHE, url get_app, app_answer) \<in>
     entries (fst (snd (sw_fetch sw_location online [] get_app))) - entries [] \<and>
   req_method get_app = ''GET'' \<and> origin (url get_app) = origin sw_location \<and>
   (\<exists>res. online get_app = Inr res \<and> ok res \<and> app_answer = res) \<and>
   (CACHE, resolve sw_location ''/'', root_answer) \<in>
     entries (fst (install online sw_location [])) - entries [] \<and>
   (\<exists>res. online (get_request (resolve sw_location ''/'')) = Inr res \<and> ok res \<and> root_answer = res) \<and>
   sw_fetch sw_location online [] get_proxy_page = (NotIntercepted, [], []) \<and>
   fst (snd (sw_fetch sw_location not_found [] get_app)) = []"
proof -
  note fact = cache_write_only_ok_same_origin_get
  have m: "(CACHE, url get_app, app_answer) \<in>
     entries (fst (snd (sw_fetch sw_location online [] get_app))) - entries []"
    by (simp add: sw_fetch_get_app entries_Cons entries_Nil)
  from fact [of sw_location online "[]" get_app]
  have "\<forall>x \<in> entries (fst (snd (sw_fetch sw_location online [] get_app))) - entries [].
      req_method get_app = ''GET'' \<and> origin (url get_app) = origin sw_location \<and>
      hostname (url get_app) = hostname sw_location \<and> pathname (url get_app) \<noteq> ''/proxy'' \<and>
      \<not> prefix ''/api/'' (pathname (url get_app)) \<and>
      (\<exists>res. online get_app = Inr res \<and> ok res \<and> x = (CACHE, url get_app, res))"
    by blast
  from bspec [OF this m]
  have 1: "req_method get_app = ''GET'' \<and> origin (url get_app) = origin sw_location \<and>
           (\<exists>res. online get_app = Inr res \<and> ok res \<and> app_answer = res)"
    by blast
  have "install online sw_location [] = ([(CACHE, [(resolve sw_location ''/'', root_answer)])],
          [get_request (resolve sw_location ''/'')])"
    by (simp add: install_def sw_ASSETS_def addAll_root caches_open_def online_def get_request_def
          resolve_def root_answer_def ok_def caches_put_def cache_put_def)
  then have i: "(CACHE, resolve sw_location ''/'', root_answer) \<in>
     entries (fst (install online sw_location [])) - entries []"
    by (simp add: entries_Cons entries_Nil)
  from fact [of sw_location online "[]" get_app]
  have "\<forall>x \<in> entries (fst (install online sw_location [])) - entries [].
      \<exists>res. online (get_request (resolve sw_location ''/'')) = Inr res \<and> ok res \<and>
        x = (CACHE, resolve sw_location ''/'', res)"
    by blast
  from bspec [OF this i]
  have 2: "\<exists>res. online (get_request (resolve sw_location ''/'')) = Inr res \<and> ok res \<and> root_answer = res"
    by blast
  have p: "pathname (url get_proxy_page) = ''/proxy''"
    by (simp add: get_proxy_page_def get_request_def)
  from fact [of sw_location online "[]" get_proxy_page] p
  have 3: "sw_fetch sw_location online [] get_proxy_page = (NotIntercepted, [], [])"
    by blast
  have n: "not_found get_app = Inr \<lparr> status = 404, headers = [], body = Some ''Not found'' \<rparr> \<and>
           (\<not> ok \<lparr> status = 404, headers = [], body = Some ''Not found'' \<rparr> \<or>
            origin (url get_app) \<noteq> origin sw_location)"
    by (simp add: not_found_def ok_def)
  from fact [of sw_location not_found "[]" get_app] n
  have 4: "fst (snd (sw_fetch sw_location not_found [] get_app)) = []"
    by blast
  from m 1 i 2 3 4 show ?thesis by blast
qed



end
